theory Spec2Isabelle
  imports Complex_Main
begin

section \<open>Data model (fraud\_qa\_agent.py)\<close>

text \<open>
  Python floats are modelled as exact reals: every arithmetic operation of the source is
  the corresponding operation on \<^typ>\<open>real\<close>, without binary rounding.  Counts
  (\<open>len\<close>, \<open>sum(1 for ...)\<close>) are natural numbers, converted with \<^const>\<open>real\<close>
  where Python's true division converts them.  Strings are byte strings; a non-ASCII
  literal of the source is spelled as its UTF-8 bytes.
\<close>

datatype py_error = ZeroDivisionError

datatype RiskLevel = LOW | MEDIUM | HIGH | CRITICAL

datatype TestStatus = PASSED | FAILED | BLOCKED | SKIPPED

text \<open>
  \<open>TestResult\<close>: the fields the aggregation and risk code reads.  The source's
  \<open>actual_result\<close>, \<open>timestamp\<close> and \<open>performance_metrics\<close> are never read by the
  functions below and are left out.
\<close>

record TestResult =
  test_case_id :: string
  status :: TestStatus
  execution_time_ms :: real
  errors :: "string list"
  warnings :: "string list"

record RiskAssessment =
  overall_risk_score :: real
  risk_level :: RiskLevel
  detection_risk :: real
  false_positive_risk :: real
  compliance_risk :: real
  system_risk :: real
  recommendations :: "string list"

section \<open>Python built-ins used by the source\<close>

text \<open>\<open>a / b\<close>: true division, raising \<open>ZeroDivisionError\<close> when \<open>b\<close> is zero.\<close>

definition py_div :: "real \<Rightarrow> real \<Rightarrow> py_error + real" where
  "py_div a b = (if b = 0 then Inl ZeroDivisionError else Inr (a / b))"

text \<open>\<open>needle in haystack\<close> on strings: \<open>needle\<close> occurs as a contiguous substring.\<close>

fun starts_with :: "string \<Rightarrow> string \<Rightarrow> bool" where
  "starts_with [] s = True"
| "starts_with (c # cs) [] = False"
| "starts_with (c # cs) (d # ds) = (c = d \<and> starts_with cs ds)"

fun str_in :: "string \<Rightarrow> string \<Rightarrow> bool" where
  "str_in needle [] = (needle = [])"
| "str_in needle (c # cs) = (starts_with needle (c # cs) \<or> str_in needle cs)"

text \<open>\<open>str.lower()\<close>, on the ASCII letters.\<close>

definition lower_char :: "char \<Rightarrow> char" where
  "lower_char c =
     (case map_of (zip ''ABCDEFGHIJKLMNOPQRSTUVWXYZ'' ''abcdefghijklmnopqrstuvwxyz'') c of
        Some d \<Rightarrow> d
      | None \<Rightarrow> c)"

definition lower :: "string \<Rightarrow> string" where
  "lower s = map lower_char s"

text \<open>\<open>sep.join(xs)\<close>.\<close>

fun join :: "string \<Rightarrow> string list \<Rightarrow> string" where
  "join sep [] = []"
| "join sep [x] = x"
| "join sep (x # y # ys) = x @ sep @ join sep (y # ys)"

text \<open>
  \<open>round(x, 2)\<close>: the nearest multiple of 0.01, a tie going to the even multiple.
\<close>

definition round_half_even :: "real \<Rightarrow> int" where
  "round_half_even y =
     (let f = \<lfloor>y\<rfloor>; d = y - of_int f
      in if d < 1 / 2 then f
         else if 1 / 2 < d then f + 1
         else if even f then f else f + 1)"

definition round2 :: "real \<Rightarrow> real" where
  "round2 x = of_int (round_half_even (x * 100)) / 100"

text \<open>The non-ASCII symbols of the source's message literals, as UTF-8.\<close>

definition sym_red_circle :: string where
  "sym_red_circle = [CHR 0xF0, CHR 0x9F, CHR 0x94, CHR 0xB4]"

definition sym_warning :: string where
  "sym_warning = [CHR 0xE2, CHR 0x9A, CHR 0xA0, CHR 0xEF, CHR 0xB8, CHR 0x8F]"

definition sym_stop :: string where
  "sym_stop = [CHR 0xF0, CHR 0x9F, CHR 0x9B, CHR 0x91]"

definition sym_check :: string where
  "sym_check = [CHR 0xE2, CHR 0x9C, CHR 0x85]"

section \<open>FraudRiskAnalyzer (fraud\_risk\_analyzer.py)\<close>

text \<open>\<open>self.risk_weights\<close>, set once in \<open>__init__\<close>.\<close>

definition w_detection_risk :: real where "w_detection_risk = 35 / 100"
definition w_false_positive_risk :: real where "w_false_positive_risk = 20 / 100"
definition w_compliance_risk :: real where "w_compliance_risk = 30 / 100"
definition w_system_risk :: real where "w_system_risk = 15 / 100"

subsection \<open>\<open>_calculate_detection_risk\<close>\<close>

definition fraud_tests :: "TestResult list \<Rightarrow> TestResult list" where
  "fraud_tests test_results =
     filter (\<lambda>r. str_in ''fraud'' (lower (test_case_id r))
                \<and> \<not> str_in ''neg'' (lower (test_case_id r))
                \<and> \<not> str_in ''Performance'' (test_case_id r)
                \<and> \<not> str_in ''Compliance'' (test_case_id r)) test_results"

text \<open>The \<open>if/elif/else\<close> on \<open>fn_rate\<close> followed by \<open>min(100, risk_score)\<close>.\<close>

definition detection_risk_curve :: "real \<Rightarrow> real" where
  "detection_risk_curve fn_rate =
     min 100 (if fn_rate < 5 / 100 then fn_rate * 400
              else if fn_rate < 10 / 100 then 20 + (fn_rate - 5 / 100) * 1200
              else 80 + (fn_rate - 10 / 100) * 200)"

definition calculate_detection_risk :: "TestResult list \<Rightarrow> py_error + real" where
  "calculate_detection_risk test_results =
     (let ft = fraud_tests test_results in
      if ft = [] then Inr 0
      else
        let false_negatives =
              length (filter (\<lambda>r. status r = FAILED
                                   \<and> str_in ''FALSE NEGATIVE'' (join '' '' (errors r))) ft)
        in case (if ft \<noteq> [] then py_div (real false_negatives) (real (length ft)) else Inr 0) of
             Inl e \<Rightarrow> Inl e
           | Inr fn_rate \<Rightarrow> Inr (detection_risk_curve fn_rate))"

subsection \<open>\<open>_calculate_false_positive_risk\<close>\<close>

definition negative_tests :: "TestResult list \<Rightarrow> TestResult list" where
  "negative_tests test_results =
     filter (\<lambda>r. str_in ''neg'' (lower (test_case_id r))) test_results"

definition false_positive_risk_curve :: "real \<Rightarrow> real" where
  "false_positive_risk_curve fp_rate =
     min 100 (if fp_rate < 10 / 100 then fp_rate * 300
              else if fp_rate < 20 / 100 then 30 + (fp_rate - 10 / 100) * 500
              else 80 + (fp_rate - 20 / 100) * 100)"

definition calculate_false_positive_risk :: "TestResult list \<Rightarrow> py_error + real" where
  "calculate_false_positive_risk test_results =
     (let nt = negative_tests test_results in
      if nt = [] then Inr 0
      else
        let false_positives =
              length (filter (\<lambda>r. status r = FAILED
                                   \<and> str_in ''FALSE POSITIVE'' (join '' '' (errors r))) nt)
        in case (if nt \<noteq> [] then py_div (real false_positives) (real (length nt)) else Inr 0) of
             Inl e \<Rightarrow> Inl e
           | Inr fp_rate \<Rightarrow> Inr (false_positive_risk_curve fp_rate))"

subsection \<open>\<open>_calculate_compliance_risk\<close>\<close>

definition compliance_tests :: "TestResult list \<Rightarrow> TestResult list" where
  "compliance_tests test_results =
     filter (\<lambda>r. str_in ''Compliance'' (test_case_id r) \<or> str_in ''COMP'' (test_case_id r))
       test_results"

definition calculate_compliance_risk :: "TestResult list \<Rightarrow> real" where
  "calculate_compliance_risk test_results =
     (let ct = compliance_tests test_results in
      if ct = [] then 0
      else
        let failed_compliance = length (filter (\<lambda>r. status r = FAILED) ct)
        in if failed_compliance = 0 then 0
           else if failed_compliance = 1 then 60
           else if failed_compliance = 2 then 85
           else 100)"

subsection \<open>\<open>_calculate_system_risk\<close>\<close>

definition performance_tests :: "TestResult list \<Rightarrow> TestResult list" where
  "performance_tests test_results =
     filter (\<lambda>r. str_in ''Performance'' (test_case_id r) \<or> str_in ''PERF'' (test_case_id r))
       test_results"

text \<open>
  The \<open>if/elif/else\<close> on \<open>failure_rate\<close>.  Each of its three branches returns, so the
  statement \<open>return min(100, failure_rate * 1000)\<close> that follows it in the source is
  never reached and has no counterpart here.
\<close>

definition system_risk_curve :: "real \<Rightarrow> real" where
  "system_risk_curve failure_rate =
     (if failure_rate < 2 / 100 then failure_rate * 1000
      else if failure_rate < 5 / 100 then 20 + (failure_rate - 2 / 100) * 1333
      else 60 + (failure_rate - 5 / 100) * 800)"

definition calculate_system_risk :: "TestResult list \<Rightarrow> py_error + real" where
  "calculate_system_risk test_results =
     (let pt = performance_tests test_results in
      if pt = [] then Inr 0
      else
        let perf_failures = length (filter (\<lambda>r. status r = FAILED) pt);
            blocked_tests = length (filter (\<lambda>r. status r = BLOCKED) test_results);
            total_tests = length test_results
        in case (if total_tests \<noteq> 0
                 then py_div (real (perf_failures + blocked_tests)) (real total_tests)
                 else Inr 0) of
             Inl e \<Rightarrow> Inl e
           | Inr failure_rate \<Rightarrow> Inr (system_risk_curve failure_rate))"

subsection \<open>\<open>_categorize_risk\<close>\<close>

definition categorize_risk :: "real \<Rightarrow> RiskLevel" where
  "categorize_risk risk_score =
     (if risk_score \<ge> 75 then CRITICAL
      else if risk_score \<ge> 50 then HIGH
      else if risk_score \<ge> 25 then MEDIUM
      else LOW)"

subsection \<open>\<open>_generate_recommendations\<close>\<close>

text \<open>An exception raised by a step of a function ends the function with that exception.\<close>

definition on_ok :: "py_error + 'a \<Rightarrow> ('a \<Rightarrow> py_error + 'b) \<Rightarrow> py_error + 'b" where
  "on_ok m f = (case m of Inl e \<Rightarrow> Inl e | Inr x \<Rightarrow> f x)"

definition rec_detection :: "real \<Rightarrow> string list" where
  "rec_detection d =
     (if d \<ge> 75 then
        [sym_red_circle @ '' CRITICAL: High false negative rate detected. ''
           @ ''Immediately review and retrain fraud detection models. ''
           @ ''Consider deploying ensemble models for improved detection.'']
      else if d \<ge> 50 then
        [sym_warning @ '' HIGH: Elevated false negative rate. ''
           @ ''Review detection rules and thresholds. ''
           @ ''Analyze missed fraud patterns and update algorithms.'']
      else if d \<ge> 25 then
        [sym_warning @ '' MEDIUM: Some fraud patterns being missed. ''
           @ ''Fine-tune detection rules for identified gaps.'']
      else [])"

definition rec_false_positive :: "real \<Rightarrow> string list" where
  "rec_false_positive f =
     (if f \<ge> 75 then
        [sym_red_circle @ '' CRITICAL: High false positive rate causing customer friction. ''
           @ ''Implement adaptive thresholds based on customer risk profiles. ''
           @ ''Review and adjust overly aggressive rules.'']
      else if f \<ge> 50 then
        [sym_warning @ '' HIGH: Elevated false positive rate. ''
           @ ''Optimize risk scoring algorithm to reduce false alerts. ''
           @ ''Consider implementing customer behavior learning.'']
      else [])"

definition rec_compliance :: "real \<Rightarrow> string list" where
  "rec_compliance c =
     (if c \<ge> 60 then
        [sym_stop @ '' BLOCKING: Compliance violations detected. ''
           @ ''Fix all compliance gaps before production deployment. ''
           @ ''This is a go/no-go blocker.'']
      else if c \<ge> 30 then
        [sym_warning @ '' Compliance concerns identified. ''
           @ ''Address all compliance issues and re-validate before deployment.'']
      else [])"

definition rec_system :: "real \<Rightarrow> string list" where
  "rec_system s =
     (if s \<ge> 60 then
        [sym_red_circle @ '' CRITICAL: System reliability issues detected. ''
           @ ''Performance degradation or failures under load. ''
           @ ''Conduct capacity planning and optimize critical paths.'']
      else if s \<ge> 30 then
        [sym_warning @ '' System performance concerns. ''
           @ ''Optimize slow queries and implement caching strategies.'']
      else [])"

definition rec_pass_rate :: string where
  "rec_pass_rate =
     sym_warning @ '' Overall test pass rate below 85%. ''
       @ ''Comprehensive review and remediation required before deployment.''"

definition rec_approved :: string where
  "rec_approved =
     sym_check @ '' All risk metrics within acceptable ranges. ''
       @ ''System appears ready for deployment pending final approvals.''"

text \<open>
  The four threshold blocks append in the order of the source; then
  \<open>failed_count / total_count\<close> is evaluated, with no test on \<open>total_count\<close>.
\<close>

definition generate_recommendations ::
  "real \<Rightarrow> real \<Rightarrow> real \<Rightarrow> real \<Rightarrow> TestResult list \<Rightarrow> py_error + string list" where
  "generate_recommendations d f c s test_results =
     (let recs = rec_detection d @ rec_false_positive f @ rec_compliance c @ rec_system s;
          failed_count = length (filter (\<lambda>r. status r = FAILED) test_results);
          total_count = length test_results
      in on_ok (py_div (real failed_count) (real total_count)) (\<lambda>ratio.
           let recs' = (if ratio > 15 / 100 then recs @ [rec_pass_rate] else recs)
           in Inr (if recs' = [] then [rec_approved] else recs')))"

subsection \<open>\<open>calculate_risk\<close>\<close>

text \<open>The weighted sum of lines 36--41, the local \<open>overall_risk_score\<close> before rounding.\<close>

definition weighted_score :: "real \<Rightarrow> real \<Rightarrow> real \<Rightarrow> real \<Rightarrow> real" where
  "weighted_score d f c s =
     d * w_detection_risk + f * w_false_positive_risk + c * w_compliance_risk
       + s * w_system_risk"

definition calculate_risk :: "TestResult list \<Rightarrow> py_error + RiskAssessment" where
  "calculate_risk test_results =
     on_ok (calculate_detection_risk test_results) (\<lambda>d.
     on_ok (calculate_false_positive_risk test_results) (\<lambda>f.
     let c = calculate_compliance_risk test_results in
     on_ok (calculate_system_risk test_results) (\<lambda>s.
     let overall = weighted_score d f c s;
         level = categorize_risk overall
     in on_ok (generate_recommendations d f c s test_results) (\<lambda>recs.
          Inr \<lparr> overall_risk_score = round2 overall,
                risk_level = level,
                detection_risk = round2 d,
                false_positive_risk = round2 f,
                compliance_risk = round2 c,
                system_risk = round2 s,
                recommendations = recs \<rparr>))))"

subsection \<open>\<open>_get_deployment_recommendation\<close> and \<open>generate_risk_report\<close>\<close>

definition analyzer_get_deployment_recommendation :: "RiskAssessment \<Rightarrow> string" where
  "analyzer_get_deployment_recommendation assessment =
     (if compliance_risk assessment \<ge> 60 then
        sym_stop @ '' DO NOT DEPLOY - Compliance violations (BLOCKING)''
      else if risk_level assessment = CRITICAL then
        sym_stop @ '' DO NOT DEPLOY - Critical risk level''
      else if risk_level assessment = HIGH then
        sym_warning @ '' DEPLOY WITH CAUTION - High risk, requires executive approval''
      else if risk_level assessment = MEDIUM then
        sym_warning @ '' CONDITIONAL APPROVAL - Medium risk, monitor closely post-deployment''
      else sym_check @ '' APPROVED FOR DEPLOYMENT - Low risk'')"

record BreakdownEntry =
  score :: real
  weight :: real
  contribution :: real

text \<open>
  The report dictionary without its \<open>risk_visualization\<close> entry (a text rendering of the
  same five scores).
\<close>

record RiskReport =
  report_risk_score :: real
  report_risk_level :: RiskLevel
  report_deployment_recommendation :: string
  breakdown_detection_risk :: BreakdownEntry
  breakdown_false_positive_risk :: BreakdownEntry
  breakdown_compliance_risk :: BreakdownEntry
  breakdown_system_risk :: BreakdownEntry
  report_recommendations :: "string list"

definition breakdown_entry :: "real \<Rightarrow> real \<Rightarrow> BreakdownEntry" where
  "breakdown_entry sc w = \<lparr> score = sc, weight = w, contribution = sc * w \<rparr>"

definition generate_risk_report :: "RiskAssessment \<Rightarrow> RiskReport" where
  "generate_risk_report assessment =
     \<lparr> report_risk_score = overall_risk_score assessment,
       report_risk_level = risk_level assessment,
       report_deployment_recommendation = analyzer_get_deployment_recommendation assessment,
       breakdown_detection_risk =
         breakdown_entry (detection_risk assessment) w_detection_risk,
       breakdown_false_positive_risk =
         breakdown_entry (false_positive_risk assessment) w_false_positive_risk,
       breakdown_compliance_risk =
         breakdown_entry (compliance_risk assessment) w_compliance_risk,
       breakdown_system_risk =
         breakdown_entry (system_risk assessment) w_system_risk,
       report_recommendations = recommendations assessment \<rparr>"

text \<open>The sum of the four \<open>contribution\<close> entries of a report.\<close>

definition contribution_sum :: "RiskReport \<Rightarrow> real" where
  "contribution_sum rep =
     contribution (breakdown_detection_risk rep)
       + contribution (breakdown_false_positive_risk rep)
       + contribution (breakdown_compliance_risk rep)
       + contribution (breakdown_system_risk rep)"

section \<open>FraudQAAgent.get\_deployment\_recommendation (fraud\_qa\_agent.py)\<close>

text \<open>
  The agent's \<open>self.risk_assessment\<close> (\<open>None\<close> until the analysis has run) and
  \<open>self.test_results\<close> are the two arguments.
\<close>

definition get_deployment_recommendation ::
  "RiskAssessment option \<Rightarrow> TestResult list \<Rightarrow> string" where
  "get_deployment_recommendation risk_assessment test_results =
     (case risk_assessment of
        None \<Rightarrow> ''UNKNOWN - Risk assessment not completed''
      | Some ra \<Rightarrow>
          let risk_score = overall_risk_score ra;
              critical_failures =
                length (filter (\<lambda>r. status r = FAILED
                                     \<and> list_ex (\<lambda>e. str_in ''CRITICAL'' e) (errors r))
                          test_results)
          in if critical_failures > 0 then
               sym_stop @ '' DO NOT DEPLOY - Critical failures detected''
             else if risk_score \<ge> 75 then
               sym_warning @ '' DO NOT DEPLOY - High risk score''
             else if risk_score \<ge> 50 then
               sym_warning @ '' DEPLOY WITH CAUTION - Medium risk, requires approval''
             else sym_check @ '' APPROVED FOR DEPLOYMENT - Low risk'')"

section \<open>TestSummaryGenerator.\_calculate\_accuracy\_metrics (test\_summary\_generator.py)\<close>

record AccuracyMetrics =
  true_positives :: nat
  false_positives :: nat
  true_negatives :: nat
  false_negatives :: nat
  total_fraud_tests :: nat
  total_legitimate_tests :: nat
  precision :: real
  recall :: real
  f1_score :: real
  false_positive_rate :: real
  false_negative_rate :: real

definition summary_fraud_tests :: "TestResult list \<Rightarrow> TestResult list" where
  "summary_fraud_tests test_results =
     filter (\<lambda>r. str_in ''fraud'' (lower (test_case_id r))
                \<and> \<not> str_in ''neg'' (lower (test_case_id r))
                \<and> \<not> str_in ''Performance'' (test_case_id r)
                \<and> \<not> str_in ''Compliance'' (test_case_id r)) test_results"

definition legit_tests :: "TestResult list \<Rightarrow> TestResult list" where
  "legit_tests test_results =
     filter (\<lambda>r. str_in ''neg'' (lower (test_case_id r))) test_results"

text \<open>\<open>sum(1 for r in xs if r.status == st)\<close>.\<close>

definition count_status :: "TestStatus \<Rightarrow> TestResult list \<Rightarrow> nat" where
  "count_status st xs = length (filter (\<lambda>r. status r = st) xs)"

text \<open>The three guarded ratios of lines 136--138, before they are scaled and rounded.\<close>

definition precision_of :: "nat \<Rightarrow> nat \<Rightarrow> py_error + real" where
  "precision_of tp fp = (if tp + fp > 0 then py_div (real tp) (real (tp + fp)) else Inr 0)"

definition recall_of :: "nat \<Rightarrow> nat \<Rightarrow> py_error + real" where
  "recall_of tp fn = (if tp + fn > 0 then py_div (real tp) (real (tp + fn)) else Inr 0)"

definition f1_of :: "real \<Rightarrow> real \<Rightarrow> py_error + real" where
  "f1_of prec rec = (if prec + rec > 0 then py_div (2 * prec * rec) (prec + rec) else Inr 0)"

definition calculate_accuracy_metrics :: "TestResult list \<Rightarrow> py_error + AccuracyMetrics" where
  "calculate_accuracy_metrics test_results =
     (let ft = summary_fraud_tests test_results;
          lt = legit_tests test_results;
          tp = count_status PASSED ft;
          fn = count_status FAILED ft;
          tn = count_status PASSED lt;
          fp = count_status FAILED lt;
          total_fraud = length ft;
          total_legit = length lt
      in
      on_ok (precision_of tp fp) (\<lambda>prec.
      on_ok (recall_of tp fn) (\<lambda>rec.
      on_ok (f1_of prec rec) (\<lambda>f1.
      on_ok (if total_legit > 0
             then on_ok (py_div (real fp) (real total_legit)) (\<lambda>q. Inr (round2 (q * 100)))
             else Inr 0) (\<lambda>fpr.
      on_ok (if total_fraud > 0
             then on_ok (py_div (real fn) (real total_fraud)) (\<lambda>q. Inr (round2 (q * 100)))
             else Inr 0) (\<lambda>fnr.
        Inr \<lparr> true_positives = tp,
              false_positives = fp,
              true_negatives = tn,
              false_negatives = fn,
              total_fraud_tests = total_fraud,
              total_legitimate_tests = total_legit,
              precision = round2 (prec * 100),
              recall = round2 (rec * 100),
              f1_score = round2 (f1 * 100),
              false_positive_rate = fpr,
              false_negative_rate = fnr \<rparr>))))))"

section \<open>TestExecutionEngine.\_validate\_result (test\_execution\_engine.py)\<close>

text \<open>
  The dictionaries \<open>expected_result\<close>, \<open>actual_result\<close> and \<open>test_data\<close> are read at fixed
  keys only; each such key is a field, \<open>None\<close> when the key is absent.
\<close>

record ExpectedResult =
  exp_fraud_alert_triggered :: "bool option"
  exp_risk_score :: "real option"

record ActualResult =
  act_fraud_alert_triggered :: "bool option"
  act_risk_score :: "real option"
  act_max_response_time_ms :: "real option"
  act_compliance_met :: "bool option"
  act_violations :: "string list option"

record TestCase =
  tc_test_case_id :: string
  category :: string
  max_allowed_response_time_ms :: "real option"
  expected_result :: ExpectedResult

record ValidationResult =
  v_status :: TestStatus
  v_errors :: "string list"
  v_warnings :: "string list"

text \<open>\<open>d.get(key, default)\<close>.\<close>

definition get_or :: "'a option \<Rightarrow> 'a \<Rightarrow> 'a" where
  "get_or v dflt = (case v of None \<Rightarrow> dflt | Some x \<Rightarrow> x)"

definition alert_errors :: "TestCase \<Rightarrow> ActualResult \<Rightarrow> string list" where
  "alert_errors test_case actual_result =
     (case exp_fraud_alert_triggered (expected_result test_case) of
        None \<Rightarrow> []
      | Some expected_alert \<Rightarrow>
          let actual_alert = get_or (act_fraud_alert_triggered actual_result) False
          in if expected_alert \<noteq> actual_alert then
               (if expected_alert
                then [''FALSE NEGATIVE: Fraud not detected (expected alert, got none)'']
                else [''FALSE POSITIVE: Legitimate transaction flagged ''
                        @ ''(expected no alert, got alert)''])
             else [])"

text \<open>
  The f-strings interpolate numbers and a list; \<open>fmt\<close> and \<open>fmt_list\<close> stand for Python's
  \<open>str\<close> on a number and on a list of strings.
\<close>

definition score_warnings :: "(real \<Rightarrow> string) \<Rightarrow> TestCase \<Rightarrow> ActualResult \<Rightarrow> string list" where
  "score_warnings fmt test_case actual_result =
     (case exp_risk_score (expected_result test_case) of
        None \<Rightarrow> []
      | Some expected_score \<Rightarrow>
          let actual_score = get_or (act_risk_score actual_result) 0
          in if \<bar>expected_score - actual_score\<bar> > 15 then
               [''Risk score variance: expected ~'' @ fmt expected_score
                  @ '', got '' @ fmt actual_score]
             else [])"

definition performance_errors ::
  "(real \<Rightarrow> string) \<Rightarrow> TestCase \<Rightarrow> ActualResult \<Rightarrow> string list" where
  "performance_errors fmt test_case actual_result =
     (if str_in ''Performance'' (category test_case) then
        let max_allowed = get_or (max_allowed_response_time_ms test_case) 5000;
            actual_max = get_or (act_max_response_time_ms actual_result) 0
        in if actual_max > max_allowed then
             [''Performance SLA violation: '' @ fmt actual_max @ ''ms > ''
                @ fmt max_allowed @ ''ms'']
           else []
      else [])"

definition compliance_errors ::
  "(string list \<Rightarrow> string) \<Rightarrow> TestCase \<Rightarrow> ActualResult \<Rightarrow> string list" where
  "compliance_errors fmt_list test_case actual_result =
     (if str_in ''Compliance'' (category test_case) then
        (if \<not> get_or (act_compliance_met actual_result) False then
           [''Compliance validation failed: ''
              @ fmt_list (get_or (act_violations actual_result) [])]
         else [])
      else [])"

definition validate_result ::
  "(real \<Rightarrow> string) \<Rightarrow> (string list \<Rightarrow> string) \<Rightarrow> TestCase \<Rightarrow> ActualResult
     \<Rightarrow> ValidationResult" where
  "validate_result fmt fmt_list test_case actual_result =
     (let errs = alert_errors test_case actual_result
                   @ performance_errors fmt test_case actual_result
                   @ compliance_errors fmt_list test_case actual_result;
          warns = score_warnings fmt test_case actual_result;
          st = (if errs \<noteq> [] then
                  (if list_ex (\<lambda>err. str_in ''CRITICAL'' err \<or> str_in ''FALSE NEGATIVE'' err) errs
                   then FAILED else FAILED)
                else if warns \<noteq> [] then PASSED
                else PASSED)
      in \<lparr> v_status = st, v_errors = errs, v_warnings = warns \<rparr>)"

section \<open>Concrete inputs\<close>

text \<open>One Compliance test, failed by the validator, and nothing else.\<close>

definition ex_compliance_failure :: "TestResult list" where
  "ex_compliance_failure =
     [\<lparr> test_case_id = ''TC-COMPLIANCE-001'', status = FAILED, execution_time_ms = 100,
        errors = [''Compliance validation failed: []''], warnings = [] \<rparr>]"

text \<open>One Performance test, failed by the validator, and nothing else.\<close>

definition ex_performance_failure :: "TestResult list" where
  "ex_performance_failure =
     [\<lparr> test_case_id = ''TC-PERFORMANCE-001'', status = FAILED, execution_time_ms = 100,
        errors = [''Performance SLA violation: 6000ms > 5000ms''], warnings = [] \<rparr>]"

text \<open>One fraud-positive test whose oracle call raised, hence \<open>BLOCKED\<close>.\<close>

definition ex_blocked_fraud :: "TestResult list" where
  "ex_blocked_fraud =
     [\<lparr> test_case_id = ''TC-CARD_FRAUD-001'', status = BLOCKED, execution_time_ms = 100,
        errors = [''Test execution failed: timeout''], warnings = [] \<rparr>]"

text \<open>Three legitimate ("neg") tests, one of them a false positive.\<close>

definition ex_one_false_positive :: "TestResult list" where
  "ex_one_false_positive =
     [\<lparr> test_case_id = ''TC-NEG-001'', status = FAILED, execution_time_ms = 100,
        errors = [''FALSE POSITIVE: Legitimate transaction flagged ''
                    @ ''(expected no alert, got alert)''],
        warnings = [] \<rparr>,
      \<lparr> test_case_id = ''TC-NEG-002'', status = PASSED, execution_time_ms = 100,
        errors = [], warnings = [] \<rparr>,
      \<lparr> test_case_id = ''TC-NEG-003'', status = PASSED, execution_time_ms = 100,
        errors = [], warnings = [] \<rparr>]"

text \<open>An id that carries both markers.\<close>

definition ex_fraud_neg :: TestResult where
  "ex_fraud_neg =
     \<lparr> test_case_id = ''TC-FRAUD-NEG-001'', status = PASSED, execution_time_ms = 100,
       errors = [], warnings = [] \<rparr>"

text \<open>
  A fraud test whose alert matches the expectation and whose score is 30 points off.
\<close>

definition ex_score_drift_case :: TestCase where
  "ex_score_drift_case =
     \<lparr> tc_test_case_id = ''TC-CARD_FRAUD-001'', category = ''Card Fraud'',
       max_allowed_response_time_ms = None,
       expected_result =
         \<lparr> exp_fraud_alert_triggered = Some True, exp_risk_score = Some 90 \<rparr> \<rparr>"

definition ex_score_drift_actual :: ActualResult where
  "ex_score_drift_actual =
     \<lparr> act_fraud_alert_triggered = Some True, act_risk_score = Some 60,
       act_max_response_time_ms = None, act_compliance_met = None, act_violations = None \<rparr>"

section \<open>Evaluation rules\<close>

lemmas risk_defs =
  calculate_risk_def calculate_detection_risk_def calculate_false_positive_risk_def
  calculate_system_risk_def calculate_compliance_risk_def fraud_tests_def negative_tests_def
  performance_tests_def compliance_tests_def generate_recommendations_def on_ok_def py_div_def
  weighted_score_def w_detection_risk_def w_false_positive_risk_def w_compliance_risk_def
  w_system_risk_def categorize_risk_def round2_def round_half_even_def
  detection_risk_curve_def false_positive_risk_curve_def system_risk_curve_def
  lower_def lower_char_def Let_def

section \<open>Deployment decision\<close>

text \<open>
  C1 (evaluation at the failing input).  One failed Compliance test gives
  \<open>compliance_risk = 60\<close> and \<open>overall_risk_score = 18\<close>, with no error text containing
  \<open>CRITICAL\<close>.  The agent's \<open>get_deployment_recommendation\<close> has no compliance rule and
  answers "APPROVED FOR DEPLOYMENT", while the analyzer's \<open>_get_deployment_recommendation\<close>
  answers "DO NOT DEPLOY" on the same assessment, and the assessment's own recommendation
  list calls the compliance failure a go/no-go blocker.
\<close>

theorem C1_agent_approves_compliance_failure:
  "\<not> isl (calculate_risk ex_compliance_failure)
   \<and> compliance_risk (projr (calculate_risk ex_compliance_failure)) = 60
   \<and> overall_risk_score (projr (calculate_risk ex_compliance_failure)) = 18
   \<and> get_deployment_recommendation (Some (projr (calculate_risk ex_compliance_failure)))
        ex_compliance_failure
      = sym_check @ '' APPROVED FOR DEPLOYMENT - Low risk''
   \<and> analyzer_get_deployment_recommendation (projr (calculate_risk ex_compliance_failure))
      = sym_stop @ '' DO NOT DEPLOY - Compliance violations (BLOCKING)''
   \<and> hd (recommendations (projr (calculate_risk ex_compliance_failure)))
      = sym_stop @ '' BLOCKING: Compliance violations detected. ''
          @ ''Fix all compliance gaps before production deployment. ''
          @ ''This is a go/no-go blocker.''"
  by (simp add: ex_compliance_failure_def risk_defs get_deployment_recommendation_def
      analyzer_get_deployment_recommendation_def rec_detection_def rec_false_positive_def
      rec_compliance_def rec_system_def)

section \<open>Range of the risk scores\<close>

text \<open>
  C2 (evaluation at the failing input).  With one failed Performance test the failure
  rate is 1, the third branch of \<open>_calculate_system_risk\<close> returns
  \<open>60 + 0.95 * 800 = 820\<close> without a cap, and the weighted overall score is 123.
\<close>

theorem C2_system_risk_exceeds_100:
  "\<not> isl (calculate_risk ex_performance_failure)
   \<and> system_risk (projr (calculate_risk ex_performance_failure)) = 820
   \<and> overall_risk_score (projr (calculate_risk ex_performance_failure)) = 123"
  by (simp add: ex_performance_failure_def risk_defs)

section \<open>Empty input\<close>

text \<open>
  C3 (evaluation at the failing input).  On the empty list the four component scores are
  0, and then \<open>_generate_recommendations\<close> divides \<open>failed_count\<close> by
  \<open>total_count = 0\<close>: \<open>calculate_risk\<close> raises \<open>ZeroDivisionError\<close>.
\<close>

theorem C3_empty_input_raises:
  "calculate_detection_risk [] = Inr 0
   \<and> calculate_false_positive_risk [] = Inr 0
   \<and> calculate_compliance_risk [] = 0
   \<and> calculate_system_risk [] = Inr 0
   \<and> calculate_risk [] = Inl ZeroDivisionError"
  by (simp add: risk_defs)

section \<open>Continuity of the risk curves\<close>

text \<open>A function that is Lipschitz around a point is continuous there.\<close>

lemma local_lipschitz_isCont:
  fixes f :: "real \<Rightarrow> real"
  assumes e: "0 < e" and L: "0 < L"
    and lip: "\<And>x. \<bar>x - a\<bar> < e \<Longrightarrow> \<bar>f x - f a\<bar> \<le> L * \<bar>x - a\<bar>"
  shows "isCont f a"
  unfolding isCont_def LIM_eq
proof (intro allI impI)
  fix r :: real
  assume r: "0 < r"
  define s where "s = min e (r / L)"
  have s_pos: "0 < s" using e L r by (simp add: s_def)
  have "\<forall>x. x \<noteq> a \<and> norm (x - a) < s \<longrightarrow> norm (f x - f a) < r"
  proof (intro allI impI)
    fix x
    assume "x \<noteq> a \<and> norm (x - a) < s"
    then have near: "\<bar>x - a\<bar> < e" and small: "\<bar>x - a\<bar> < r / L"
      by (simp_all add: s_def)
    from small L have "L * \<bar>x - a\<bar> < r"
      by (simp add: field_simps)
    with lip [OF near] show "norm (f x - f a) < r"
      by simp
  qed
  with s_pos show "\<exists>s>0. \<forall>x. x \<noteq> a \<and> norm (x - a) < s \<longrightarrow> norm (f x - f a) < r"
    by blast
qed

lemma detection_cont_5: "isCont detection_risk_curve (5 / 100)"
  by (rule local_lipschitz_isCont [where e = "1 / 100" and L = 1200])
     (auto simp: detection_risk_curve_def min_def abs_if split: if_splits)

lemma detection_cont_10: "isCont detection_risk_curve (10 / 100)"
  by (rule local_lipschitz_isCont [where e = "1 / 100" and L = 1200])
     (auto simp: detection_risk_curve_def min_def abs_if split: if_splits)

lemma false_positive_cont_10: "isCont false_positive_risk_curve (10 / 100)"
  by (rule local_lipschitz_isCont [where e = "1 / 100" and L = 500])
     (auto simp: false_positive_risk_curve_def min_def abs_if split: if_splits)

lemma false_positive_cont_20: "isCont false_positive_risk_curve (20 / 100)"
  by (rule local_lipschitz_isCont [where e = "1 / 100" and L = 500])
     (auto simp: false_positive_risk_curve_def min_def abs_if split: if_splits)

lemma system_cont_2: "isCont system_risk_curve (2 / 100)"
  by (rule local_lipschitz_isCont [where e = "1 / 100" and L = 1333])
     (auto simp: system_risk_curve_def abs_if split: if_splits)

lemma curve_values:
  "detection_risk_curve (5 / 100) = 20" "detection_risk_curve (10 / 100) = 80"
  "false_positive_risk_curve (10 / 100) = 30" "false_positive_risk_curve (20 / 100) = 80"
  "system_risk_curve (2 / 100) = 20" "system_risk_curve (5 / 100) = 60"
  by (simp_all add: detection_risk_curve_def false_positive_risk_curve_def
      system_risk_curve_def)

text \<open>
  On the 2--5\% piece the system score stays below 59.99, since
  \<open>20 + 0.03 * 1333 = 59.99\<close>; the next piece starts at 60.
\<close>

lemma system_curve_below_break:
  assumes "2 / 100 \<le> x" and "x < 5 / 100"
  shows "system_risk_curve x < 5999 / 100"
  using assms by (simp add: system_risk_curve_def)

lemma system_not_cont_5: "\<not> isCont system_risk_curve (5 / 100)"
proof
  assume "isCont system_risk_curve (5 / 100)"
  then have "system_risk_curve \<midarrow>5 / 100\<rightarrow> system_risk_curve (5 / 100)"
    by (simp add: isCont_def)
  then have "\<forall>r>0. \<exists>s>0. \<forall>x. x \<noteq> 5 / 100 \<and> norm (x - 5 / 100) < s
               \<longrightarrow> norm (system_risk_curve x - system_risk_curve (5 / 100)) < r"
    by (simp only: LIM_eq)
  then obtain s where s: "s > 0"
    and close: "\<And>x. x \<noteq> 5 / 100 \<Longrightarrow> \<bar>x - 5 / 100\<bar> < s
                  \<Longrightarrow> \<bar>system_risk_curve x - system_risk_curve (5 / 100)\<bar> < 1 / 200"
    by (force simp: real_norm_def dest: spec [where x = "1 / 200"])
  define x where "x = 5 / 100 - min (s / 2) (1 / 100)"
  have x1: "x \<noteq> 5 / 100" and x2: "\<bar>x - 5 / 100\<bar> < s"
    and x3: "2 / 100 \<le> x" and x4: "x < 5 / 100"
    using s by (auto simp: x_def min_def)
  from close [OF x1 x2] system_curve_below_break [OF x3 x4] curve_values(6)
  show False by linarith
qed

text \<open>
  C4.  The detection curve is continuous at 5\% (value 20) and at 10\% (value 80), the
  false-positive curve at 10\% (value 30) and at 20\% (value 80), and the system curve at
  2\% (value 20).  At 5\% the system curve has the value 60 but is not continuous: its
  2--5\% piece, with the factor 1333, ends at 59.99.  (The compliance score is a step
  function of a count and has no breakpoint of this kind.)
\<close>

theorem C4_system_curve_jump_at_5_percent:
  "isCont detection_risk_curve (5 / 100) \<and> detection_risk_curve (5 / 100) = 20
   \<and> isCont detection_risk_curve (10 / 100) \<and> detection_risk_curve (10 / 100) = 80
   \<and> isCont false_positive_risk_curve (10 / 100) \<and> false_positive_risk_curve (10 / 100) = 30
   \<and> isCont false_positive_risk_curve (20 / 100) \<and> false_positive_risk_curve (20 / 100) = 80
   \<and> isCont system_risk_curve (2 / 100) \<and> system_risk_curve (2 / 100) = 20
   \<and> system_risk_curve (5 / 100) = 60
   \<and> \<not> isCont system_risk_curve (5 / 100)"
  using detection_cont_5 detection_cont_10 false_positive_cont_10 false_positive_cont_20
    system_cont_2 system_not_cont_5 curve_values
  by (intro conjI)

section \<open>Bounds that do hold for the component scores\<close>

lemma detection_risk_curve_range:
  "0 \<le> x \<Longrightarrow> 0 \<le> detection_risk_curve x \<and> detection_risk_curve x \<le> 100"
  by (auto simp: detection_risk_curve_def min_def)

lemma false_positive_risk_curve_range:
  "0 \<le> x \<Longrightarrow> 0 \<le> false_positive_risk_curve x \<and> false_positive_risk_curve x \<le> 100"
  by (auto simp: false_positive_risk_curve_def min_def)

lemma calculate_compliance_risk_range:
  "0 \<le> calculate_compliance_risk rs \<and> calculate_compliance_risk rs \<le> 100"
  by (simp add: calculate_compliance_risk_def Let_def)

lemma system_risk_curve_range:
  "0 \<le> x \<Longrightarrow> x \<le> 1 \<Longrightarrow> 0 \<le> system_risk_curve x \<and> system_risk_curve x \<le> 820"
  by (auto simp: system_risk_curve_def)

lemma calculate_detection_risk_range:
  "\<exists>d. calculate_detection_risk rs = Inr d \<and> 0 \<le> d \<and> d \<le> 100"
  using detection_risk_curve_range
  by (simp add: calculate_detection_risk_def Let_def py_div_def)

lemma calculate_false_positive_risk_range:
  "\<exists>f. calculate_false_positive_risk rs = Inr f \<and> 0 \<le> f \<and> f \<le> 100"
  using false_positive_risk_curve_range
  by (simp add: calculate_false_positive_risk_def Let_def py_div_def)

section \<open>Confusion matrix and accuracy ratios\<close>

lemma count_status_total:
  "count_status PASSED xs + count_status FAILED xs + count_status BLOCKED xs
     + count_status SKIPPED xs = length xs"
proof (induction xs)
  case Nil
  show ?case by (simp add: count_status_def)
next
  case (Cons r rs)
  then show ?case by (cases "status r") (simp_all add: count_status_def)
qed

lemma precision_of_eq:
  "precision_of tp fp = Inr (if tp + fp = 0 then 0 else real tp / real (tp + fp))"
  by (simp add: precision_of_def py_div_def)

lemma recall_of_eq:
  "recall_of tp fn = Inr (if tp + fn = 0 then 0 else real tp / real (tp + fn))"
  by (simp add: recall_of_def py_div_def)

lemma f1_of_eq:
  "f1_of p r = Inr (if p + r > 0 then 2 * p * r / (p + r) else 0)"
  by (simp add: f1_of_def py_div_def)

text \<open>The aggregator never raises; its result in closed form.\<close>

lemma calculate_accuracy_metrics_eq:
  "calculate_accuracy_metrics rs =
     (let ft = summary_fraud_tests rs; lt = legit_tests rs;
          tp = count_status PASSED ft; fn = count_status FAILED ft;
          tn = count_status PASSED lt; fp = count_status FAILED lt;
          p = (if tp + fp = 0 then 0 else real tp / real (tp + fp));
          r = (if tp + fn = 0 then 0 else real tp / real (tp + fn));
          f1 = (if p + r > 0 then 2 * p * r / (p + r) else 0)
      in Inr \<lparr> true_positives = tp, false_positives = fp, true_negatives = tn,
               false_negatives = fn, total_fraud_tests = length ft,
               total_legitimate_tests = length lt,
               precision = round2 (p * 100), recall = round2 (r * 100),
               f1_score = round2 (f1 * 100),
               false_positive_rate =
                 (if length lt > 0 then round2 (real fp / real (length lt) * 100) else 0),
               false_negative_rate =
                 (if length ft > 0 then round2 (real fn / real (length ft) * 100) else 0) \<rparr>)"
  unfolding calculate_accuracy_metrics_def Let_def precision_of_eq recall_of_eq f1_of_eq
  by (simp add: on_ok_def py_div_def)

text \<open>
  C5 (counterexample).  A single fraud-positive test with status \<open>BLOCKED\<close> is counted in
  \<open>total_fraud_tests\<close> but neither as a true positive nor as a false negative:
  \<open>TP + FN = 0\<close> while the total is 1.
\<close>

theorem C5_blocked_fraud_test_uncounted:
  "calculate_accuracy_metrics ex_blocked_fraud =
     Inr \<lparr> true_positives = 0, false_positives = 0, true_negatives = 0,
           false_negatives = 0, total_fraud_tests = 1, total_legitimate_tests = 0,
           precision = 0, recall = 0, f1_score = 0,
           false_positive_rate = 0, false_negative_rate = 0 \<rparr>"
  by (simp add: calculate_accuracy_metrics_eq Let_def ex_blocked_fraud_def
      summary_fraud_tests_def legit_tests_def count_status_def lower_def lower_char_def
      round2_def round_half_even_def)

text \<open>
  C5 (amended).  For every list of test results the aggregator returns, and
  \<open>TP + FN\<close> plus the number of fraud-positive tests that are \<open>BLOCKED\<close> or \<open>SKIPPED\<close>
  equals the number of fraud-positive tests; likewise \<open>TN + FP\<close> plus the number of
  legitimate tests that are \<open>BLOCKED\<close> or \<open>SKIPPED\<close> equals the number of legitimate
  tests.  So the two equalities of the confusion-matrix invariant hold exactly when no
  test of the partition is \<open>BLOCKED\<close> or \<open>SKIPPED\<close>.
\<close>

theorem C5_confusion_matrix_counts_passed_and_failed:
  "\<exists>m. calculate_accuracy_metrics rs = Inr m
     \<and> true_positives m + false_negatives m
         + count_status BLOCKED (summary_fraud_tests rs)
         + count_status SKIPPED (summary_fraud_tests rs) = total_fraud_tests m
     \<and> true_negatives m + false_positives m
         + count_status BLOCKED (legit_tests rs)
         + count_status SKIPPED (legit_tests rs) = total_legitimate_tests m"
  using count_status_total [of "summary_fraud_tests rs"] count_status_total [of "legit_tests rs"]
  by (simp add: calculate_accuracy_metrics_eq Let_def)


section \<open>Disjoint partitions\<close>

text \<open>
  C10.  In the risk analyzer and in the accuracy aggregator no result is in both the
  fraud-positive list and the legitimate list, and a result whose lower-cased id contains
  \<open>neg\<close> is in neither fraud-positive list, whatever else its id contains.
\<close>

theorem C10_partitions_disjoint:
  "\<not> (r \<in> set (fraud_tests rs) \<and> r \<in> set (negative_tests rs))
   \<and> \<not> (r \<in> set (summary_fraud_tests rs) \<and> r \<in> set (legit_tests rs))
   \<and> (str_in ''neg'' (lower (test_case_id r))
        \<longrightarrow> r \<notin> set (fraud_tests rs) \<and> r \<notin> set (summary_fraud_tests rs))"
  by (auto simp: fraud_tests_def negative_tests_def summary_fraud_tests_def legit_tests_def)

text \<open>
  C10 (witness).  The id \<open>TC-FRAUD-NEG-001\<close> contains both markers; the result is in the
  legitimate lists and in neither fraud-positive list.
\<close>

theorem C10_partitions_disjoint_witness:
  "str_in ''fraud'' (lower (test_case_id ex_fraud_neg))
   \<and> str_in ''neg'' (lower (test_case_id ex_fraud_neg))
   \<and> ex_fraud_neg \<notin> set (fraud_tests [ex_fraud_neg])
   \<and> ex_fraud_neg \<notin> set (summary_fraud_tests [ex_fraud_neg])
   \<and> ex_fraud_neg \<in> set (negative_tests [ex_fraud_neg])
   \<and> ex_fraud_neg \<in> set (legit_tests [ex_fraud_neg])"
proof -
  have n: "str_in ''neg'' (lower (test_case_id ex_fraud_neg))"
    by (simp add: ex_fraud_neg_def lower_def lower_char_def)
  have f: "str_in ''fraud'' (lower (test_case_id ex_fraud_neg))"
    by (simp add: ex_fraud_neg_def lower_def lower_char_def)
  from C10_partitions_disjoint [of ex_fraud_neg "[ex_fraud_neg]"] n f show ?thesis
    by (simp add: negative_tests_def legit_tests_def)
qed

section \<open>Structure of a returned assessment\<close>

lemma calculate_risk_Inr:
  assumes "calculate_risk rs = Inr a"
  obtains d f s recs where
    "calculate_detection_risk rs = Inr d"
    "calculate_false_positive_risk rs = Inr f"
    "calculate_system_risk rs = Inr s"
    "generate_recommendations d f (calculate_compliance_risk rs) s rs = Inr recs"
    "a = \<lparr> overall_risk_score = round2 (weighted_score d f (calculate_compliance_risk rs) s),
           risk_level = categorize_risk (weighted_score d f (calculate_compliance_risk rs) s),
           detection_risk = round2 d,
           false_positive_risk = round2 f,
           compliance_risk = round2 (calculate_compliance_risk rs),
           system_risk = round2 s,
           recommendations = recs \<rparr>"
  using assms
  by (auto simp: calculate_risk_def on_ok_def Let_def split: sum.splits)


lemma ex_one_false_positive_returns:
  "calculate_risk ex_one_false_positive = Inr (projr (calculate_risk ex_one_false_positive))"
proof -
  have "\<not> isl (calculate_risk ex_one_false_positive)"
    by (simp add: ex_one_false_positive_def risk_defs)
  then show ?thesis
    by (cases "calculate_risk ex_one_false_positive") simp_all
qed

section \<open>Risk level and monotonicity of the weighted score\<close>



section \<open>Validator status\<close>

lemma validate_status:
  "v_status (validate_result fmt fmt_list tc ar)
     = (if v_errors (validate_result fmt fmt_list tc ar) = [] then PASSED else FAILED)"
  by (simp add: validate_result_def Let_def)

text \<open>
  C7.  For every test case and actual result the validator's status is \<open>FAILED\<close> exactly
  when its errors list is non-empty and \<open>PASSED\<close> exactly when it is empty, so the
  warnings play no part.  When the expected risk score is given and differs from the
  actual one by more than 15, and there is no alert mismatch, no SLA violation and no
  compliance failure, the result has status \<open>PASSED\<close>, no error and the single
  score-variance warning.
\<close>

theorem C7_status_from_errors_only:
  "(v_status (validate_result fmt fmt_list tc ar) = FAILED
      \<longleftrightarrow> v_errors (validate_result fmt fmt_list tc ar) \<noteq> [])
   \<and> (v_status (validate_result fmt fmt_list tc ar) = PASSED
      \<longleftrightarrow> v_errors (validate_result fmt fmt_list tc ar) = [])
   \<and> (exp_risk_score (expected_result tc) = Some e
        \<and> \<bar>e - get_or (act_risk_score ar) 0\<bar> > 15
        \<and> (exp_fraud_alert_triggered (expected_result tc) = None
             \<or> exp_fraud_alert_triggered (expected_result tc)
                 = Some (get_or (act_fraud_alert_triggered ar) False))
        \<and> (\<not> str_in ''Performance'' (category tc)
             \<or> get_or (act_max_response_time_ms ar) 0
                 \<le> get_or (max_allowed_response_time_ms tc) 5000)
        \<and> (\<not> str_in ''Compliance'' (category tc) \<or> get_or (act_compliance_met ar) False)
      \<longrightarrow> v_status (validate_result fmt fmt_list tc ar) = PASSED
          \<and> v_errors (validate_result fmt fmt_list tc ar) = []
          \<and> v_warnings (validate_result fmt fmt_list tc ar)
              = [''Risk score variance: expected ~'' @ fmt e @ '', got ''
                   @ fmt (get_or (act_risk_score ar) 0)])"
proof (intro conjI impI)
  show "(v_status (validate_result fmt fmt_list tc ar) = FAILED)
          = (v_errors (validate_result fmt fmt_list tc ar) \<noteq> [])"
    by (simp add: validate_status)
  show "(v_status (validate_result fmt fmt_list tc ar) = PASSED)
          = (v_errors (validate_result fmt fmt_list tc ar) = [])"
    by (simp add: validate_status)
next
  assume h: "exp_risk_score (expected_result tc) = Some e
        \<and> \<bar>e - get_or (act_risk_score ar) 0\<bar> > 15
        \<and> (exp_fraud_alert_triggered (expected_result tc) = None
             \<or> exp_fraud_alert_triggered (expected_result tc)
                 = Some (get_or (act_fraud_alert_triggered ar) False))
        \<and> (\<not> str_in ''Performance'' (category tc)
             \<or> get_or (act_max_response_time_ms ar) 0
                 \<le> get_or (max_allowed_response_time_ms tc) 5000)
        \<and> (\<not> str_in ''Compliance'' (category tc) \<or> get_or (act_compliance_met ar) False)"
  have a: "alert_errors tc ar = []"
    using h by (auto simp: alert_errors_def Let_def)
  have p: "performance_errors fmt tc ar = []"
    using h by (auto simp: performance_errors_def Let_def)
  have c: "compliance_errors fmt_list tc ar = []"
    using h by (auto simp: compliance_errors_def)
  have w: "score_warnings fmt tc ar
             = [''Risk score variance: expected ~'' @ fmt e @ '', got ''
                  @ fmt (get_or (act_risk_score ar) 0)]"
    using h by (simp add: score_warnings_def Let_def)
  show "v_status (validate_result fmt fmt_list tc ar) = PASSED"
    and "v_errors (validate_result fmt fmt_list tc ar) = []"
    and "v_warnings (validate_result fmt fmt_list tc ar)
              = [''Risk score variance: expected ~'' @ fmt e @ '', got ''
                   @ fmt (get_or (act_risk_score ar) 0)]"
    by (simp_all add: validate_result_def Let_def a p c w)
qed

text \<open>
  C7 (witness).  Expected score 90, actual score 60, alert as expected, category
  "Card Fraud": status \<open>PASSED\<close>, no error, one warning.
\<close>

theorem C7_status_from_errors_only_witness:
  "exp_risk_score (expected_result ex_score_drift_case) = Some 90
   \<and> \<bar>90 - get_or (act_risk_score ex_score_drift_actual) 0\<bar> > 15
   \<and> exp_fraud_alert_triggered (expected_result ex_score_drift_case)
       = Some (get_or (act_fraud_alert_triggered ex_score_drift_actual) False)
   \<and> \<not> str_in ''Performance'' (category ex_score_drift_case)
   \<and> \<not> str_in ''Compliance'' (category ex_score_drift_case)
   \<and> v_status (validate_result (\<lambda>x. ''n'') (\<lambda>x. ''l'') ex_score_drift_case
                 ex_score_drift_actual) = PASSED
   \<and> v_errors (validate_result (\<lambda>x. ''n'') (\<lambda>x. ''l'') ex_score_drift_case
                 ex_score_drift_actual) = []
   \<and> v_warnings (validate_result (\<lambda>x. ''n'') (\<lambda>x. ''l'') ex_score_drift_case
                   ex_score_drift_actual) \<noteq> []"
proof -
  have h: "exp_risk_score (expected_result ex_score_drift_case) = Some 90
   \<and> \<bar>90 - get_or (act_risk_score ex_score_drift_actual) 0\<bar> > 15
   \<and> exp_fraud_alert_triggered (expected_result ex_score_drift_case)
       = Some (get_or (act_fraud_alert_triggered ex_score_drift_actual) False)
   \<and> \<not> str_in ''Performance'' (category ex_score_drift_case)
   \<and> \<not> str_in ''Compliance'' (category ex_score_drift_case)"
    by (simp add: ex_score_drift_case_def ex_score_drift_actual_def get_or_def)
  from C7_status_from_errors_only
         [of "\<lambda>x. ''n''" "\<lambda>x. ''l''" ex_score_drift_case ex_score_drift_actual 90] h
  show ?thesis by simp
qed

section \<open>Weights and the contribution decomposition\<close>

lemma round_half_even_error: "\<bar>of_int (round_half_even y) - y\<bar> \<le> 1 / 2"
proof -
  have "of_int \<lfloor>y\<rfloor> \<le> y" "y < of_int \<lfloor>y\<rfloor> + 1" by linarith+
  then show ?thesis by (auto simp: round_half_even_def Let_def)
qed

lemma round2_error: "\<bar>round2 x - x\<bar> \<le> 1 / 200"
proof -
  have "\<bar>of_int (round_half_even (x * 100)) - x * 100\<bar> \<le> 1 / 2"
    by (rule round_half_even_error)
  then show ?thesis by (simp add: round2_def field_simps abs_le_iff)
qed

lemma weights_sum:
  "w_detection_risk + w_false_positive_risk + w_compliance_risk + w_system_risk = 1"
  by (simp add: w_detection_risk_def w_false_positive_risk_def w_compliance_risk_def
      w_system_risk_def)

lemma decomposition_bound:
  "\<bar>(round2 d * w_detection_risk + round2 f * w_false_positive_risk
       + round2 c * w_compliance_risk + round2 s * w_system_risk)
      - round2 (weighted_score d f c s)\<bar> \<le> 1 / 100"
proof -
  have "\<bar>round2 d - d\<bar> \<le> 1 / 200" "\<bar>round2 f - f\<bar> \<le> 1 / 200"
    "\<bar>round2 c - c\<bar> \<le> 1 / 200" "\<bar>round2 s - s\<bar> \<le> 1 / 200"
    "\<bar>round2 (weighted_score d f c s) - weighted_score d f c s\<bar> \<le> 1 / 200"
    by (rule round2_error)+
  moreover have "weighted_score d f c s
                   = d * (35 / 100) + f * (20 / 100) + c * (30 / 100) + s * (15 / 100)"
    by (simp add: weighted_score_def w_detection_risk_def w_false_positive_risk_def
        w_compliance_risk_def w_system_risk_def)
  ultimately show ?thesis
    unfolding w_detection_risk_def w_false_positive_risk_def w_compliance_risk_def
      w_system_risk_def
    by linarith
qed

text \<open>
  C8 (counterexample).  Three legitimate tests with one false positive: the
  false-positive score is \<open>93.333...\<close>, stored as 93.33; its contribution
  \<open>93.33 * 0.20 = 18.666\<close> is the whole decomposition, while the stored overall score is
  \<open>round(18.666..., 2) = 18.67\<close>.
\<close>

theorem C8_decomposition_not_exact:
  "\<not> isl (calculate_risk ex_one_false_positive)
   \<and> false_positive_risk (projr (calculate_risk ex_one_false_positive)) = 9333 / 100
   \<and> contribution_sum (generate_risk_report (projr (calculate_risk ex_one_false_positive)))
       = 18666 / 1000
   \<and> overall_risk_score (projr (calculate_risk ex_one_false_positive)) = 1867 / 100"
  by (simp add: ex_one_false_positive_def risk_defs contribution_sum_def
      generate_risk_report_def breakdown_entry_def)

text \<open>
  C8 (amended).  The four weights sum to 1, and for every assessment returned by
  \<open>calculate_risk\<close> the contributions reported by \<open>generate_risk_report\<close> sum to the
  stored \<open>overall_risk_score\<close> up to the rounding of the stored values: the difference
  is at most 0.01.
\<close>

theorem C8_decomposition_within_rounding:
  "w_detection_risk + w_false_positive_risk + w_compliance_risk + w_system_risk = 1
   \<and> (calculate_risk rs = Inr a \<longrightarrow>
        \<bar>contribution_sum (generate_risk_report a) - overall_risk_score a\<bar> \<le> 1 / 100)"
proof (intro conjI impI)
  show "w_detection_risk + w_false_positive_risk + w_compliance_risk + w_system_risk = 1"
    by (rule weights_sum)
next
  assume "calculate_risk rs = Inr a"
  then obtain d f s recs where
    a: "a = \<lparr> overall_risk_score = round2 (weighted_score d f (calculate_compliance_risk rs) s),
           risk_level = categorize_risk (weighted_score d f (calculate_compliance_risk rs) s),
           detection_risk = round2 d,
           false_positive_risk = round2 f,
           compliance_risk = round2 (calculate_compliance_risk rs),
           system_risk = round2 s,
           recommendations = recs \<rparr>"
    by (rule calculate_risk_Inr)
  show "\<bar>contribution_sum (generate_risk_report a) - overall_risk_score a\<bar> \<le> 1 / 100"
    using decomposition_bound [of d f "calculate_compliance_risk rs" s]
    by (simp add: a contribution_sum_def generate_risk_report_def breakdown_entry_def)
qed

text \<open>
  C8 (witness).  The assessment of the three legitimate tests above: it is returned, and
  its decomposition is within 0.01 of its stored overall score.
\<close>

theorem C8_decomposition_within_rounding_witness:
  "calculate_risk ex_one_false_positive = Inr (projr (calculate_risk ex_one_false_positive))
   \<and> \<bar>contribution_sum (generate_risk_report (projr (calculate_risk ex_one_false_positive)))
        - overall_risk_score (projr (calculate_risk ex_one_false_positive))\<bar> \<le> 1 / 100"
  using C8_decomposition_within_rounding
          [of ex_one_false_positive "projr (calculate_risk ex_one_false_positive)"]
        ex_one_false_positive_returns
  by blast

end
